theory Spec2Isabelle
  imports Complex_Main
begin

section \<open>PostgreSQL INTEGER arithmetic\<close>

text \<open>
  Every column and every parameter of the migration is declared \<^verbatim>\<open>INTEGER\<close>, the
  32-bit signed type of PostgreSQL. Its operators \<^verbatim>\<open>+\<close>, \<^verbatim>\<open>-\<close> and \<^verbatim>\<open>*\<close> do not wrap:
  a result outside the range aborts the statement with SQLSTATE 22003
  (integer out of range). The model keeps the values as \<open>int\<close> and makes that error a
  value. Parameters are taken as non-NULL. The other errors are those of an insert
  into the table: a key of the payload that names no column, a value that cannot be
  read in the type of its column (22P02, 22007), a row refused by a row-level security
  policy (42501), a missing value for a NOT NULL column (23502), a duplicate primary
  key and a duplicate \<^verbatim>\<open>(user_id, date)\<close> (both 23505).
\<close>

datatype pg_error =
    IntegerOutOfRange | UndefinedColumn | InvalidInput | RlsViolation | NotNullViolation
  | PkeyViolation | UniqueViolation

definition int4 :: "int \<Rightarrow> bool" where
  "int4 x \<longleftrightarrow> - 2147483648 \<le> x \<and> x \<le> 2147483647"

definition int4pl :: "int \<Rightarrow> int \<Rightarrow> pg_error + int" where
  "int4pl a b = (if int4 (a + b) then Inr (a + b) else Inl IntegerOutOfRange)"

definition int4mi :: "int \<Rightarrow> int \<Rightarrow> pg_error + int" where
  "int4mi a b = (if int4 (a - b) then Inr (a - b) else Inl IntegerOutOfRange)"

definition int4mul :: "int \<Rightarrow> int \<Rightarrow> pg_error + int" where
  "int4mul a b = (if int4 (a * b) then Inr (a * b) else Inl IntegerOutOfRange)"

text \<open>Sequencing of two evaluations: the first error aborts the rest.\<close>

definition andthen :: "pg_error + 'a \<Rightarrow> ('a \<Rightarrow> pg_error + 'b) \<Rightarrow> pg_error + 'b" where
  "andthen m f = (case m of Inl e \<Rightarrow> Inl e | Inr v \<Rightarrow> f v)"

section \<open>The earnings calculator\<close>

text \<open>
  \<^verbatim>\<open>public.calculate_earnings(total_orders, cash_orders, morning_cash, evening_cash)\<close>
  returns one row of four INTEGER columns.
\<close>

record earnings =
  cash_earnings :: int
  online_earnings :: int
  bonus_earnings :: int
  total_earnings :: int

text \<open>
  \<^verbatim>\<open>expected_cash := CASE WHEN cash_orders <= 30 THEN cash_orders * 55
                         ELSE (30 * 55) + ((cash_orders - 30) * 75) END;\<close>
\<close>

definition expected_cash :: "int \<Rightarrow> pg_error + int" where
  "expected_cash cash_orders =
     (if cash_orders \<le> 30 then int4mul cash_orders 55
      else andthen (int4mul 30 55) (\<lambda>base.
           andthen (int4mi cash_orders 30) (\<lambda>over.
           andthen (int4mul over 75) (\<lambda>extra.
           int4pl base extra))))"

text \<open>\<^verbatim>\<open>actual_cash_diff := evening_cash - morning_cash;\<close>\<close>

definition actual_cash_diff :: "int \<Rightarrow> int \<Rightarrow> pg_error + int" where
  "actual_cash_diff morning_cash evening_cash = int4mi evening_cash morning_cash"

text \<open>
  \<^verbatim>\<open>calc_online_earnings := CASE
     WHEN (total_orders - cash_orders) <= 30 THEN (total_orders - cash_orders) * 55
     ELSE (30 * 55) + (((total_orders - cash_orders) - 30) * 75) END;\<close>
  The difference is written out, and evaluated, in the condition and again in the
  branch that is taken.
\<close>

definition calc_online_earnings :: "int \<Rightarrow> int \<Rightarrow> pg_error + int" where
  "calc_online_earnings total_orders cash_orders =
     andthen (int4mi total_orders cash_orders) (\<lambda>online_orders.
       if online_orders \<le> 30
       then andthen (int4mi total_orders cash_orders) (\<lambda>n. int4mul n 55)
       else andthen (int4mul 30 55) (\<lambda>base.
            andthen (int4mi total_orders cash_orders) (\<lambda>n.
            andthen (int4mi n 30) (\<lambda>over.
            andthen (int4mul over 75) (\<lambda>extra.
            int4pl base extra)))))"

text \<open>
  \<^verbatim>\<open>calc_bonus_earnings := CASE WHEN total_orders > 30 THEN (total_orders - 30) * 20
                               ELSE 0 END;\<close>
\<close>

definition calc_bonus_earnings :: "int \<Rightarrow> pg_error + int" where
  "calc_bonus_earnings total_orders =
     (if total_orders > 30
      then andthen (int4mi total_orders 30) (\<lambda>over. int4mul over 20)
      else Inr 0)"

text \<open>
  The body, statement by statement; \<^verbatim>\<open>a + b + c\<close> associates to the left.
\<close>

definition calculate_earnings :: "int \<Rightarrow> int \<Rightarrow> int \<Rightarrow> int \<Rightarrow> pg_error + earnings" where
  "calculate_earnings total_orders cash_orders morning_cash evening_cash =
     andthen (expected_cash cash_orders) (\<lambda>expected.
     andthen (actual_cash_diff morning_cash evening_cash) (\<lambda>diff.
     andthen (int4pl diff expected) (\<lambda>calc_cash.
     andthen (calc_online_earnings total_orders cash_orders) (\<lambda>calc_online.
     andthen (calc_bonus_earnings total_orders) (\<lambda>calc_bonus.
     andthen (int4pl calc_cash calc_online) (\<lambda>partial_sum.
     andthen (int4pl partial_sum calc_bonus) (\<lambda>calc_total.
     Inr \<lparr>cash_earnings = calc_cash, online_earnings = calc_online,
          bonus_earnings = calc_bonus, total_earnings = calc_total\<rparr>)))))))"

subsection \<open>The rule as the specification words it\<close>

text \<open>
  The tiered rate of the specification, on unbounded integers: 55 for each of the
  first 30 units, 75 for each unit beyond.
\<close>

definition tier :: "int \<Rightarrow> int" where
  "tier n = (if n \<le> 30 then n * 55 else 30 * 55 + (n - 30) * 75)"

definition bonus :: "int \<Rightarrow> int" where
  "bonus total_orders = max 0 (total_orders - 30) * 20"

text \<open>
  The inputs on which every value the rule produces, intermediate sums included, is an
  INTEGER.
\<close>

definition fits :: "int \<Rightarrow> int \<Rightarrow> int \<Rightarrow> int \<Rightarrow> bool" where
  "fits total_orders cash_orders morning_cash evening_cash \<longleftrightarrow>
     int4 (tier cash_orders) \<and>
     int4 (evening_cash - morning_cash) \<and>
     int4 (evening_cash - morning_cash + tier cash_orders) \<and>
     int4 (tier (total_orders - cash_orders)) \<and>
     int4 (bonus total_orders) \<and>
     int4 (evening_cash - morning_cash + tier cash_orders + tier (total_orders - cash_orders)) \<and>
     int4 (evening_cash - morning_cash + tier cash_orders + tier (total_orders - cash_orders)
           + bonus total_orders)"

section \<open>The table and its policies\<close>

text \<open>
  The four counters of a shift are columns of the table and fields of the form.
\<close>

record counters =
  morning_cash :: int
  evening_cash :: int
  total_orders :: int
  cash_orders :: int

text \<open>
  A row of \<^verbatim>\<open>public.daily_earnings\<close>, with the columns of its \<^verbatim>\<open>CREATE TABLE\<close>: the
  key \<^verbatim>\<open>id\<close>, a UUID, is \<open>row_id\<close>, a number; a date is the number of its day (days
  since 1970-01-01); the four derived columns are grouped in \<open>derived\<close>; the
  timestamps \<^verbatim>\<open>created_at\<close> and \<^verbatim>\<open>updated_at\<close> are left out of the rows.
\<close>

record daily_earnings = counters +
  row_id :: nat
  user_id :: string
  date :: int
  derived :: earnings

definition columns :: "string list" where
  "columns =
     [''id'', ''user_id'', ''date'', ''morning_cash'', ''evening_cash'', ''total_orders'',
      ''cash_orders'', ''cash_earnings'', ''online_earnings'', ''bonus_earnings'',
      ''total_earnings'', ''created_at'', ''updated_at'']"

text \<open>
  The four policies, each for all roles. The first argument is the account of the
  session that runs the statement; the expressions of the migration compare the row's
  \<^verbatim>\<open>user_id\<close> with the constant \<^verbatim>\<open>'denis'\<close>. The insert policy is given the
  \<^verbatim>\<open>user_id\<close> of the new row.
\<close>

definition policy_select :: "string \<Rightarrow> daily_earnings \<Rightarrow> bool" where
  "policy_select account r \<longleftrightarrow> user_id r = ''denis''"

definition policy_insert :: "string \<Rightarrow> string \<Rightarrow> bool" where
  "policy_insert account new_user_id \<longleftrightarrow> new_user_id = ''denis''"

definition policy_update :: "string \<Rightarrow> daily_earnings \<Rightarrow> bool" where
  "policy_update account r \<longleftrightarrow> user_id r = ''denis''"

definition policy_delete :: "string \<Rightarrow> daily_earnings \<Rightarrow> bool" where
  "policy_delete account r \<longleftrightarrow> user_id r = ''denis''"

text \<open>
  The payload of an insert is a JSON object: keys with their values. A value is an
  integer number, a string in the form of a date (by the number of its day), or a
  string that spells neither a number nor a date. Each column reads the kind of value
  of its type and refuses the others; where PostgreSQL would convert a value of another
  kind, the model has no such payloads.
\<close>

datatype cell = Int_cell int | Date_cell int | Text_cell string

type_synonym payload = "(string \<times> cell) list"

definition undeclared :: "payload \<Rightarrow> string list" where
  "undeclared p = filter (\<lambda>k. k \<notin> set columns) (map fst p)"

definition int_column :: "payload \<Rightarrow> string \<Rightarrow> pg_error + int option" where
  "int_column p k =
     (case map_of p k of
        None \<Rightarrow> Inr None
      | Some (Int_cell n) \<Rightarrow> if int4 n then Inr (Some n) else Inl IntegerOutOfRange
      | Some (Date_cell d) \<Rightarrow> Inl InvalidInput
      | Some (Text_cell s) \<Rightarrow> Inl InvalidInput)"

definition date_column :: "payload \<Rightarrow> string \<Rightarrow> pg_error + int option" where
  "date_column p k =
     (case map_of p k of
        None \<Rightarrow> Inr None
      | Some (Int_cell n) \<Rightarrow> Inl InvalidInput
      | Some (Date_cell d) \<Rightarrow> Inr (Some d)
      | Some (Text_cell s) \<Rightarrow> Inl InvalidInput)"

definition text_column :: "payload \<Rightarrow> string \<Rightarrow> pg_error + string option" where
  "text_column p k =
     (case map_of p k of
        None \<Rightarrow> Inr None
      | Some (Int_cell n) \<Rightarrow> Inl InvalidInput
      | Some (Date_cell d) \<Rightarrow> Inl InvalidInput
      | Some (Text_cell s) \<Rightarrow> Inr (Some s))"

definition or_default :: "'a \<Rightarrow> 'a option \<Rightarrow> 'a" where
  "or_default d v = (case v of None \<Rightarrow> d | Some x \<Rightarrow> x)"

text \<open>
  \<^verbatim>\<open>INSERT\<close> of one payload by a session. A key that names no column of the table
  refuses the request. The values are read in the types of their columns. A column the
  payload does not name takes its default: a fresh \<open>new_id\<close> for the key,
  \<^verbatim>\<open>'denis'\<close> for \<^verbatim>\<open>user_id\<close>, 0 for the four derived columns; the date and the four
  counters have none. No trigger fires on an insert: the only one of the migration
  fires before UPDATE. The new row must pass the insert policy, then have its NOT NULL
  columns, and last the primary key and \<^verbatim>\<open>UNIQUE(user_id, date)\<close> are checked. No
  client names \<^verbatim>\<open>id\<close> or a timestamp in a payload, and the model does not read a
  value given for them.
\<close>

definition insert_row ::
  "string \<Rightarrow> nat \<Rightarrow> payload \<Rightarrow> daily_earnings list \<Rightarrow> pg_error + daily_earnings list" where
  "insert_row account new_id p rows =
     (if undeclared p = [] then
        andthen (text_column p ''user_id'') (\<lambda>uid.
        andthen (date_column p ''date'') (\<lambda>d.
        andthen (int_column p ''morning_cash'') (\<lambda>mc.
        andthen (int_column p ''evening_cash'') (\<lambda>ec.
        andthen (int_column p ''total_orders'') (\<lambda>t.
        andthen (int_column p ''cash_orders'') (\<lambda>c.
        andthen (int_column p ''cash_earnings'') (\<lambda>ce.
        andthen (int_column p ''online_earnings'') (\<lambda>oe.
        andthen (int_column p ''bonus_earnings'') (\<lambda>be.
        andthen (int_column p ''total_earnings'') (\<lambda>te.
          if policy_insert account (or_default ''denis'' uid) then
            (case (d, mc, ec, t, c) of
               (Some d', Some mc', Some ec', Some t', Some c') \<Rightarrow>
                 (let r = \<lparr>morning_cash = mc', evening_cash = ec', total_orders = t',
                           cash_orders = c', row_id = new_id,
                           user_id = or_default ''denis'' uid, date = d',
                           derived = \<lparr>cash_earnings = or_default 0 ce,
                                      online_earnings = or_default 0 oe,
                                      bonus_earnings = or_default 0 be,
                                      total_earnings = or_default 0 te\<rparr>\<rparr>
                  in if new_id \<in> set (map row_id rows) then Inl PkeyViolation
                     else if (user_id r, date r) \<in> set (map (\<lambda>x. (user_id x, date x)) rows)
                          then Inl UniqueViolation
                          else Inr (rows @ [r]))
             | _ \<Rightarrow> Inl NotNullViolation)
          else Inl RlsViolation))))))))))
      else Inl UndefinedColumn)"

text \<open>\<^verbatim>\<open>DELETE ... WHERE id = i\<close>: rows the delete policy hides are not touched.\<close>

definition delete_row :: "string \<Rightarrow> nat \<Rightarrow> daily_earnings list \<Rightarrow> daily_earnings list" where
  "delete_row account i rows = filter (\<lambda>r. \<not> (policy_delete account r \<and> row_id r = i)) rows"

section \<open>The dashboard\<close>

text \<open>
  Instants are milliseconds since the epoch. The time zone of the browser gives the
  offset of local time from UTC, in milliseconds, at an instant, and the offset it
  assigns to a local wall-clock time. \<^verbatim>\<open>format(new Date(), "yyyy-MM-dd")\<close> is the local
  calendar date of an instant; \<^verbatim>\<open>new Date("yyyy-MM-dd")\<close> is midnight UTC of that date;
  \<^verbatim>\<open>subDays\<close> sets the local calendar day back and keeps the local time of day.
\<close>

record zone =
  utc_offset :: "int \<Rightarrow> int"
  wall_offset :: "int \<Rightarrow> int"

definition fixed_zone :: "int \<Rightarrow> zone" where
  "fixed_zone k = \<lparr>utc_offset = (\<lambda>instant. k), wall_offset = (\<lambda>wall. k)\<rparr>"

definition local_ms :: "int \<Rightarrow> zone \<Rightarrow> int" where
  "local_ms instant z = instant + utc_offset z instant"

definition local_date :: "int \<Rightarrow> zone \<Rightarrow> int" where
  "local_date instant z = local_ms instant z div 86400000"

definition date_ms :: "int \<Rightarrow> int" where
  "date_ms d = d * 86400000"

definition subDays :: "zone \<Rightarrow> int \<Rightarrow> int \<Rightarrow> int" where
  "subDays z instant amount =
     (let wall = local_ms instant z - amount * 86400000 in wall - wall_offset z wall)"

text \<open>
  \<^verbatim>\<open>fetchEarnings\<close>: \<^verbatim>\<open>select("*").order("date", { ascending: false })\<close>, on the rows
  the select policy shows.
\<close>

definition fetchEarnings :: "string \<Rightarrow> daily_earnings list \<Rightarrow> daily_earnings list" where
  "fetchEarnings account rows = rev (sort_key date (filter (policy_select account) rows))"

text \<open>
  The validated form values, \<^verbatim>\<open>z.infer<typeof formSchema>\<close>.
\<close>

record shift = counters +
  online_tips :: int

text \<open>
  \<^verbatim>\<open>insertMutation\<close>: the payload \<^verbatim>\<open>{...newEarning, date, user_id}\<close> is the validated
  form values, the local date of the instant of the call and the id of the session's
  user.
\<close>

definition insert_payload :: "string \<Rightarrow> int \<Rightarrow> zone \<Rightarrow> shift \<Rightarrow> payload" where
  "insert_payload session_user now z newEarning =
     [(''morning_cash'', Int_cell (morning_cash newEarning)),
      (''evening_cash'', Int_cell (evening_cash newEarning)),
      (''total_orders'', Int_cell (total_orders newEarning)),
      (''cash_orders'', Int_cell (cash_orders newEarning)),
      (''online_tips'', Int_cell (online_tips newEarning)),
      (''date'', Date_cell (local_date now z)),
      (''user_id'', Text_cell session_user)]"

definition insertMutation ::
  "string \<Rightarrow> int \<Rightarrow> zone \<Rightarrow> nat \<Rightarrow> shift \<Rightarrow> daily_earnings list \<Rightarrow> pg_error + daily_earnings list" where
  "insertMutation session_user now z new_id newEarning rows =
     insert_row session_user new_id (insert_payload session_user now z newEarning) rows"

text \<open>\<^verbatim>\<open>deleteMutation\<close>: \<^verbatim>\<open>delete().eq('id', id)\<close>.\<close>

definition deleteMutation :: "string \<Rightarrow> nat \<Rightarrow> daily_earnings list \<Rightarrow> daily_earnings list" where
  "deleteMutation session_user i rows = delete_row session_user i rows"

subsection \<open>The form\<close>

text \<open>
  What the form hands to the schema: one number per field, as \<^verbatim>\<open>z.coerce.number()\<close>
  makes it from the text of a numeric input (a finite number; its exact value is a
  \<open>real\<close>), and possibly nothing for \<^verbatim>\<open>online_tips\<close>, which then defaults to 0.
  An issue names the field it is shown under and its message.
\<close>

record form_input =
  input_morning_cash :: real
  input_evening_cash :: real
  input_total_orders :: real
  input_cash_orders :: real
  input_online_tips :: "real option"

datatype field = Morning_cash | Evening_cash | Total_orders | Cash_orders | Online_tips

datatype message = Expected_integer | Must_not_be_negative | Cash_orders_exceed_total

type_synonym issue = "field \<times> message"

definition is_integer :: "real \<Rightarrow> bool" where
  "is_integer x \<longleftrightarrow> of_int \<lfloor>x\<rfloor> = x"

text \<open>\<^verbatim>\<open>.int().min(0, ...)\<close>: the checks run in this order and each adds its own issue.\<close>

definition check_number :: "field \<Rightarrow> real \<Rightarrow> issue list" where
  "check_number f x =
     (if is_integer x then [] else [(f, Expected_integer)]) @
     (if x < 0 then [(f, Must_not_be_negative)] else [])"

definition tips_or_default :: "form_input \<Rightarrow> real" where
  "tips_or_default inp = (case input_online_tips inp of None \<Rightarrow> 0 | Some x \<Rightarrow> x)"

text \<open>
  \<^verbatim>\<open>formSchema\<close>: the five fields in the order of the object, then the refinement
  \<^verbatim>\<open>cash_orders <= total_orders\<close>, reported under \<^verbatim>\<open>cash_orders\<close>.
\<close>

definition formSchema :: "form_input \<Rightarrow> issue list + shift" where
  "formSchema inp =
     (let issues =
            check_number Morning_cash (input_morning_cash inp) @
            check_number Evening_cash (input_evening_cash inp) @
            check_number Total_orders (input_total_orders inp) @
            check_number Cash_orders (input_cash_orders inp) @
            check_number Online_tips (tips_or_default inp) @
            (if input_cash_orders inp \<le> input_total_orders inp then []
             else [(Cash_orders, Cash_orders_exceed_total)])
      in if issues = []
         then Inr \<lparr>morning_cash = \<lfloor>input_morning_cash inp\<rfloor>,
                   evening_cash = \<lfloor>input_evening_cash inp\<rfloor>,
                   total_orders = \<lfloor>input_total_orders inp\<rfloor>,
                   cash_orders = \<lfloor>input_cash_orders inp\<rfloor>,
                   online_tips = \<lfloor>tips_or_default inp\<rfloor>\<rparr>
         else Inl issues)"

text \<open>
  \<^verbatim>\<open>form.handleSubmit(onSubmit)\<close> with the schema as resolver: issues are shown under
  their fields and nothing else happens; valid values go to \<^verbatim>\<open>onSubmit\<close>, which calls
  the insert mutation.
\<close>

datatype submission =
  Rejected "issue list"
| Store_call "pg_error + daily_earnings list"

definition onSubmit ::
  "string \<Rightarrow> int \<Rightarrow> zone \<Rightarrow> nat \<Rightarrow> shift \<Rightarrow> daily_earnings list \<Rightarrow> submission" where
  "onSubmit session_user now tz new_id values rows =
     Store_call (insertMutation session_user now tz new_id values rows)"

definition handleSubmit ::
  "string \<Rightarrow> int \<Rightarrow> zone \<Rightarrow> nat \<Rightarrow> form_input \<Rightarrow> daily_earnings list \<Rightarrow> submission" where
  "handleSubmit session_user now tz new_id inp rows =
     (case formSchema inp of
        Inl issues \<Rightarrow> Rejected issues
      | Inr values \<Rightarrow> onSubmit session_user now tz new_id values rows)"

definition field_value :: "form_input \<Rightarrow> field \<Rightarrow> real" where
  "field_value inp f =
     (case f of
        Morning_cash \<Rightarrow> input_morning_cash inp
      | Evening_cash \<Rightarrow> input_evening_cash inp
      | Total_orders \<Rightarrow> input_total_orders inp
      | Cash_orders \<Rightarrow> input_cash_orders inp
      | Online_tips \<Rightarrow> tips_or_default inp)"


subsection \<open>The weekly chart\<close>

text \<open>
  The client's type \<^verbatim>\<open>Earnings\<close> of a fetched record: the columns of a row and
  \<^verbatim>\<open>online_tips\<close>, which is undefined on a row that has no such column.
\<close>

record Earnings = daily_earnings +
  online_tips :: "int option"

text \<open>
  \<^verbatim>\<open>chartData\<close>: filter, map, reverse. An item carries the day its label shows
  (\<^verbatim>\<open>format(new Date(e.date), "d. M.")\<close>, a local date again) and the two bars; the
  second bar is a sum with \<^verbatim>\<open>online_tips\<close> and no number without it.
\<close>

record chart_item =
  label_day :: int
  celkem :: int
  dyska_celkem :: "int option"

definition chart_point :: "zone \<Rightarrow> Earnings \<Rightarrow> chart_item" where
  "chart_point z e =
     \<lparr>label_day = local_date (date_ms (date e)) z,
      celkem = total_earnings (derived e),
      dyska_celkem = map_option (\<lambda>tips. cash_earnings (derived e) + tips) (online_tips e)\<rparr>"

definition chartData :: "int \<Rightarrow> zone \<Rightarrow> Earnings list \<Rightarrow> chart_item list" where
  "chartData now z earnings =
     rev (map (chart_point z)
            (filter (\<lambda>e. date_ms (date e) \<ge> subDays z now 7) earnings))"

section \<open>Helper lemmas\<close>

lemma andthen_Inr [simp]: "andthen (Inr v) f = f v"
  by (simp add: andthen_def)

lemma andthen_Inl [simp]: "andthen (Inl e) f = Inl e"
  by (simp add: andthen_def)

subsection \<open>The calculator computes the rule or raises\<close>

lemma expected_cash_exact:
  "expected_cash n = (if int4 (tier n) then Inr (tier n) else Inl IntegerOutOfRange)"
  by (auto simp: expected_cash_def tier_def int4mul_def int4mi_def int4pl_def int4_def)

lemma calc_online_earnings_exact:
  "calc_online_earnings t c =
     (if int4 (tier (t - c)) then Inr (tier (t - c)) else Inl IntegerOutOfRange)"
  by (auto simp: calc_online_earnings_def tier_def int4mul_def int4mi_def int4pl_def int4_def)

lemma calc_bonus_earnings_exact:
  "calc_bonus_earnings t = (if int4 (bonus t) then Inr (bonus t) else Inl IntegerOutOfRange)"
  by (auto simp: calc_bonus_earnings_def bonus_def int4mul_def int4mi_def int4_def)

lemma calculate_earnings_exact:
  "calculate_earnings t c m e =
     (if fits t c m e
      then Inr \<lparr>cash_earnings = e - m + tier c, online_earnings = tier (t - c),
                bonus_earnings = bonus t,
                total_earnings = e - m + tier c + tier (t - c) + bonus t\<rparr>
      else Inl IntegerOutOfRange)"
  by (simp add: calculate_earnings_def expected_cash_exact calc_online_earnings_exact
      calc_bonus_earnings_exact actual_cash_diff_def int4mi_def int4pl_def fits_def)

text \<open>Every shift of a plausible size is within the range.\<close>

lemma fits_bounded:
  assumes "0 \<le> c" "c \<le> t" "t \<le> 10000000"
    and "0 \<le> m" "m \<le> 500000000" "0 \<le> e" "e \<le> 500000000"
  shows "fits t c m e"
  using assms by (auto simp: fits_def tier_def bonus_def int4_def max_def)


subsection \<open>The table\<close>

lemma andthen_eq_Inr:
  "andthen m f = Inr r \<longleftrightarrow> (\<exists>v. m = Inr v \<and> f v = Inr r)"
  by (cases m) simp_all

lemma online_tips_undeclared: "''online_tips'' \<notin> set columns"
  by (simp add: columns_def)

text \<open>The payload of the dashboard names a column the table does not have.\<close>

lemma insertMutation_refused:
  "insertMutation u now z i v rows = Inl UndefinedColumn"
  by (simp add: insertMutation_def insert_payload_def insert_row_def undeclared_def
      online_tips_undeclared)

text \<open>
  The payload carries the local date of the instant and the user of the session, and
  no derived value.
\<close>

lemma insert_payload_date_user:
  "map_of (insert_payload u now z v) ''date'' = Some (Date_cell (local_date now z))
   \<and> map_of (insert_payload u now z v) ''user_id'' = Some (Text_cell u)"
  by (simp add: insert_payload_def)

lemma insert_payload_no_derived:
  "map_of (insert_payload u now z v) ''cash_earnings'' = None
   \<and> map_of (insert_payload u now z v) ''online_earnings'' = None
   \<and> map_of (insert_payload u now z v) ''bonus_earnings'' = None
   \<and> map_of (insert_payload u now z v) ''total_earnings'' = None"
  by (simp add: insert_payload_def)

text \<open>An insert the table accepts adds one row, of \<^verbatim>\<open>'denis'\<close>, with a new key.\<close>

lemma insert_row_eq_Inr:
  assumes "insert_row a i p rows = Inr rows'"
  shows "\<exists>r. rows' = rows @ [r] \<and> row_id r = i \<and> user_id r = ''denis''
           \<and> (user_id r, date r) \<notin> set (map (\<lambda>x. (user_id x, date x)) rows)"
  using assms
  by (auto simp: insert_row_def andthen_eq_Inr policy_insert_def Let_def
      split: if_splits option.splits)

text \<open>Derived columns the payload does not name stay at their default.\<close>

lemma insert_row_derived_default:
  assumes "insert_row a i p rows = Inr rows'"
    and "map_of p ''cash_earnings'' = None" "map_of p ''online_earnings'' = None"
        "map_of p ''bonus_earnings'' = None" "map_of p ''total_earnings'' = None"
  shows "derived (last rows') =
           \<lparr>cash_earnings = 0, online_earnings = 0, bonus_earnings = 0, total_earnings = 0\<rparr>"
  using assms
  by (auto simp: insert_row_def andthen_eq_Inr int_column_def or_default_def Let_def
      split: if_splits option.splits)

text \<open>What a session is shown, and what it deletes, does not depend on its account.\<close>

lemma fetchEarnings_any_account:
  "fetchEarnings a rows = fetchEarnings b rows"
proof -
  have "policy_select a = policy_select b"
    by (simp add: fun_eq_iff policy_select_def)
  then show ?thesis
    by (simp add: fetchEarnings_def)
qed

lemma delete_row_any_account:
  "delete_row a i rows = delete_row b i rows"
  by (simp add: delete_row_def policy_delete_def)

subsection \<open>Days and zones\<close>

text \<open>
  In a zone of constant offset the threshold of the chart is the same instant whatever
  the offset, while the local date is not.
\<close>

lemma subDays_fixed_zone:
  "subDays (fixed_zone k) instant amount = instant - amount * 86400000"
  by (simp add: subDays_def local_ms_def fixed_zone_def Let_def)

lemma local_date_fixed_zone:
  "local_date instant (fixed_zone k) = (instant + k) div 86400000"
  by (simp add: local_date_def local_ms_def fixed_zone_def)

subsection \<open>Validation\<close>

lemma check_number_negative:
  "x < 0 \<Longrightarrow> (f, Must_not_be_negative) \<in> set (check_number f x)"
  by (simp add: check_number_def)

section \<open>The tiered rate\<close>

text \<open>
  C1, as amended. For every n from 0 to 28633123, the largest n whose tier value is an
  INTEGER, the tier value is n * 55 up to 30 and 1650 + (n - 30) * 75 beyond, and both
  CASE expressions of the calculator evaluate to it: the one on cash_orders that gives
  expected_cash, and the one on total_orders - cash_orders that gives the online
  earnings.
\<close>

theorem tier_rate_in_range:
  assumes "0 \<le> n" and "n \<le> 28633123"
  shows "tier n = (if n \<le> 30 then n * 55 else 1650 + (n - 30) * 75)
       \<and> expected_cash n = Inr (tier n)
       \<and> calc_online_earnings (c + n) c = Inr (tier n)"
proof -
  from assms have "int4 (tier n)"
    by (simp add: tier_def int4_def)
  then show ?thesis
    using calc_online_earnings_exact [of "c + n" c]
    by (simp add: expected_cash_exact) (simp add: tier_def)
qed

theorem tier_rate_in_range_witness:
  "(0::int) \<le> 35 \<and> (35::int) \<le> 28633123
   \<and> tier 35 = 2025 \<and> expected_cash 35 = Inr 2025 \<and> calc_online_earnings 40 5 = Inr 2025"
  using tier_rate_in_range [of 35 5] by simp

text \<open>
  C1, as stated, fails at n = 28633124: 1650 + 28633094 * 75 = 2147483700 is beyond
  the largest INTEGER, and the expression raises instead of giving a value.
\<close>

theorem tier_rate_overflow:
  "(0::int) \<le> 28633124 \<and> expected_cash 28633124 = Inl IntegerOutOfRange
   \<and> expected_cash 28633124 \<noteq> Inr (1650 + (28633124 - 30) * 75)"
  by (simp add: expected_cash_exact tier_def int4_def)

section \<open>Cash earnings\<close>

text \<open>
  C2, as amended. On every input on which no value of the rule leaves the INTEGER
  range, the calculator returns a row whose cash_earnings is
  (evening_cash - morning_cash) + tier(cash_orders): a signed difference, not clamped,
  negative when the drawer shrank by more than the expected cash.
\<close>

theorem cash_earnings_signed:
  assumes "fits t c m e"
  shows "\<exists>r. calculate_earnings t c m e = Inr r \<and> cash_earnings r = (e - m) + tier c"
  using assms by (simp add: calculate_earnings_exact)

theorem cash_earnings_signed_witness:
  "fits 0 0 100 0 \<and> (\<exists>r. calculate_earnings 0 0 100 0 = Inr r \<and> cash_earnings r = - 100)"
proof -
  have h: "fits 0 0 100 0"
    by (simp add: fits_def tier_def bonus_def int4_def)
  from cash_earnings_signed [OF h] h show ?thesis
    by (simp add: tier_def)
qed

text \<open>
  C2, as stated, fails at total_orders = cash_orders = 1, morning_cash = 0,
  evening_cash = 2147483647: the input meets the preconditions, and the sum of the
  difference and the expected cash, 2147483702, is out of range.
\<close>

theorem cash_earnings_overflow:
  "(0::int) \<le> 1 \<and> (1::int) \<le> 1 \<and> (0::int) \<le> 0 \<and> (0::int) \<le> 2147483647
   \<and> calculate_earnings 1 1 0 2147483647 = Inl IntegerOutOfRange"
  by (simp add: calculate_earnings_exact fits_def tier_def bonus_def int4_def)

section \<open>The bonus\<close>

text \<open>
  C3, as amended. On every input on which no value of the rule leaves the INTEGER
  range, the calculator returns a row whose bonus_earnings is 0 when total_orders is at
  most 30 and (total_orders - 30) * 20 otherwise: a function of the combined total
  alone.
\<close>

theorem bonus_earnings_rule:
  assumes "fits t c m e"
  shows "\<exists>r. calculate_earnings t c m e = Inr r
           \<and> bonus_earnings r = (if t \<le> 30 then 0 else (t - 30) * 20)"
  using assms by (simp add: calculate_earnings_exact bonus_def max_def)

theorem bonus_earnings_rule_witness:
  "fits 45 5 0 0 \<and> (\<exists>r. calculate_earnings 45 5 0 0 = Inr r \<and> bonus_earnings r = 300)"
proof -
  have h: "fits 45 5 0 0"
    by (simp add: fits_def tier_def bonus_def int4_def)
  from bonus_earnings_rule [OF h] h show ?thesis
    by simp
qed

text \<open>
  C3, as stated, fails at total_orders = 2147483647: the bonus expression raises, and
  so does the calculator, whatever the other inputs.
\<close>

theorem bonus_earnings_overflow:
  "(0::int) \<le> 2147483647 \<and> calc_bonus_earnings 2147483647 = Inl IntegerOutOfRange
   \<and> calculate_earnings 2147483647 0 0 0 = Inl IntegerOutOfRange"
  by (simp add: calculate_earnings_exact calc_bonus_earnings_exact fits_def tier_def
      bonus_def int4_def)

section \<open>The total\<close>

text \<open>
  C4. Whatever the four inputs, preconditions met or not, the row the calculator
  returns satisfies total_earnings = cash_earnings + online_earnings + bonus_earnings.
\<close>

theorem total_is_sum:
  assumes "calculate_earnings t c m e = Inr r"
  shows "total_earnings r = cash_earnings r + online_earnings r + bonus_earnings r"
  using assms by (auto simp: calculate_earnings_exact split: if_splits)

theorem total_is_sum_witness:
  "calculate_earnings 10 11 (- 5) 3 =
     Inr \<lparr>cash_earnings = 613, online_earnings = - 55, bonus_earnings = 0,
          total_earnings = 558\<rparr>
   \<and> (558::int) = 613 + (- 55) + 0"
proof -
  have h: "calculate_earnings 10 11 (- 5) 3 =
     Inr \<lparr>cash_earnings = 613, online_earnings = - 55, bonus_earnings = 0,
          total_earnings = 558\<rparr>"
    by (simp add: calculate_earnings_exact fits_def tier_def bonus_def int4_def)
  from total_is_sum [OF h] h show ?thesis
    by simp
qed

section \<open>Worked examples\<close>

text \<open>
  C5. On the two worked examples of the specification the calculator returns the
  stated rows: (25, 10, 200, 850) gives cash 1200, online 825, bonus 0, total 2025,
  and (40, 35, 100, 500) gives cash 2425, online 275, bonus 200, total 2900.
\<close>

theorem calculate_earnings_examples:
  "calculate_earnings 25 10 200 850 =
     Inr \<lparr>cash_earnings = 1200, online_earnings = 825,
          bonus_earnings = 0, total_earnings = 2025\<rparr>
   \<and> calculate_earnings 40 35 100 500 =
     Inr \<lparr>cash_earnings = 2425, online_earnings = 275,
          bonus_earnings = 200, total_earnings = 2900\<rparr>"
  by (simp add: calculate_earnings_def expected_cash_def actual_cash_diff_def
      calc_online_earnings_def calc_bonus_earnings_def
      int4pl_def int4mi_def int4mul_def int4_def)


section \<open>Derived columns at write time\<close>


section \<open>Validation before the store\<close>

text \<open>
  C7. A submission in which some field is negative, or cash_orders exceeds
  total_orders, is rejected: the outcome is a non-empty list of issues, each under its
  field (the negative field, and cash_orders for the excess), and the insert mutation
  is not called. The witness is cash_orders = 11 with total_orders = 10.
\<close>

theorem validation_rejects:
  assumes "(\<exists>f. field_value inp f < 0) \<or> input_cash_orders inp > input_total_orders inp"
  shows "\<exists>issues. handleSubmit u now tz i inp rows = Rejected issues
           \<and> issues \<noteq> []
           \<and> (\<forall>f. field_value inp f < 0 \<longrightarrow> (f, Must_not_be_negative) \<in> set issues)
           \<and> (input_cash_orders inp > input_total_orders inp
                \<longrightarrow> (Cash_orders, Cash_orders_exceed_total) \<in> set issues)"
proof -
  define issues where "issues =
            check_number Morning_cash (input_morning_cash inp) @
            check_number Evening_cash (input_evening_cash inp) @
            check_number Total_orders (input_total_orders inp) @
            check_number Cash_orders (input_cash_orders inp) @
            check_number Online_tips (tips_or_default inp) @
            (if input_cash_orders inp \<le> input_total_orders inp then []
             else [(Cash_orders, Cash_orders_exceed_total)])"
  have neg: "(f, Must_not_be_negative) \<in> set issues" if "field_value inp f < 0" for f
    using that check_number_negative [of "field_value inp f" f]
    by (cases f) (simp_all add: issues_def field_value_def)
  have exc: "(Cash_orders, Cash_orders_exceed_total) \<in> set issues"
    if "input_cash_orders inp > input_total_orders inp"
    using that by (simp add: issues_def)
  from assms neg exc have "issues \<noteq> []"
    by auto
  then have "handleSubmit u now tz i inp rows = Rejected issues"
    by (simp add: handleSubmit_def formSchema_def issues_def [symmetric] Let_def)
  with \<open>issues \<noteq> []\<close> neg exc show ?thesis
    by blast
qed

theorem validation_rejects_witness:
  "input_cash_orders \<lparr>input_morning_cash = 0, input_evening_cash = 0,
      input_total_orders = 10, input_cash_orders = 11, input_online_tips = Some 0\<rparr>
     > input_total_orders \<lparr>input_morning_cash = 0, input_evening_cash = 0,
      input_total_orders = 10, input_cash_orders = 11, input_online_tips = Some 0\<rparr>
   \<and> (\<exists>issues. handleSubmit ''denis'' 1715380200000 (fixed_zone 7200000) 1
         \<lparr>input_morning_cash = 0, input_evening_cash = 0,
          input_total_orders = 10, input_cash_orders = 11, input_online_tips = Some 0\<rparr> []
         = Rejected issues
       \<and> (Cash_orders, Cash_orders_exceed_total) \<in> set issues)"
  using validation_rejects [of "\<lparr>input_morning_cash = 0, input_evening_cash = 0,
      input_total_orders = 10, input_cash_orders = 11, input_online_tips = Some 0\<rparr>"
      "''denis''" 1715380200000 "fixed_zone 7200000" 1 "[]"]
  by auto


section \<open>Row-level security\<close>

text \<open>
  C8 does not hold of the code. The policies do not look at the account of the
  session: a row of the account denis is listed for the account alice, and alice's
  delete removes it.
\<close>

theorem policies_ignore_account:
  "fetchEarnings ''alice''
     [\<lparr>morning_cash = 200, evening_cash = 850, total_orders = 25, cash_orders = 10,
       row_id = 1, user_id = ''denis'', date = 19854,
       derived = \<lparr>cash_earnings = 0, online_earnings = 0,
                  bonus_earnings = 0, total_earnings = 0\<rparr>\<rparr>]
   = [\<lparr>morning_cash = 200, evening_cash = 850, total_orders = 25, cash_orders = 10,
       row_id = 1, user_id = ''denis'', date = 19854,
       derived = \<lparr>cash_earnings = 0, online_earnings = 0,
                  bonus_earnings = 0, total_earnings = 0\<rparr>\<rparr>]
   \<and> deleteMutation ''alice'' 1
     [\<lparr>morning_cash = 200, evening_cash = 850, total_orders = 25, cash_orders = 10,
       row_id = 1, user_id = ''denis'', date = 19854,
       derived = \<lparr>cash_earnings = 0, online_earnings = 0,
                  bonus_earnings = 0, total_earnings = 0\<rparr>\<rparr>]
   = []
   \<and> ''alice'' \<noteq> ''denis''"
  by (simp add: fetchEarnings_def policy_select_def deleteMutation_def delete_row_def
      policy_delete_def)

section \<open>The weekly chart\<close>

text \<open>
  C9 does not hold of the code. The filter reads the date of a record as midnight UTC
  and compares it with the instant seven local days before now, so the window moves
  with the time of day and the zone. Half an hour after local midnight two hours east
  of UTC (2024-05-10 22:30 UTC, the 11th locally) the record of the 4th, seven days
  before today, is in the chart: an eighth day.
\<close>

theorem chart_shows_eighth_day:
  "local_date 1715380200000 (fixed_zone 7200000) = 19854
   \<and> chartData 1715380200000 (fixed_zone 7200000)
      [\<lparr>morning_cash = 0, evening_cash = 0, total_orders = 0, cash_orders = 0,
        row_id = 1, user_id = ''denis'', date = 19847,
        derived = \<lparr>cash_earnings = 0, online_earnings = 0,
                   bonus_earnings = 0, total_earnings = 0\<rparr>,
        online_tips = None\<rparr>]
     = [\<lparr>label_day = 19847, celkem = 0, dyska_celkem = None\<rparr>]
   \<and> \<not> (19847 \<ge> local_date 1715380200000 (fixed_zone 7200000) - 6)"
  by (simp add: chartData_def chart_point_def local_date_def local_ms_def date_ms_def
      subDays_def fixed_zone_def)

section \<open>One record a day\<close>


end
